theory Spec2Isabelle
  imports Complex_Main
begin

section \<open>The SPHysics dam-break example of pysph\<close>

text \<open>
  The source, \<^verbatim>\<open>pysph/examples/sphysics/dambreak_sphysics.py\<close>, assembles a
  simulation: it reads physical constants from the INDAT parameter file when the module is
  loaded, and its application class builds a solver (\<^verbatim>\<open>create_solver\<close>) and a pipeline
  of equation groups (\<^verbatim>\<open>create_equations\<close>).

  Python floats are modelled as real numbers: rounding and overflow are outside the model.
  The two places where a float operation of the source leaves the real numbers are written
  out: float division by zero raises, and \<^verbatim>\<open>numpy.sqrt\<close> of a negative number is nan.
\<close>

subsection \<open>Values and errors\<close>

datatype error = IndexError | ZeroDivisionError

text \<open>A keyword argument of the source is a float, numpy's nan, or a boolean.\<close>

datatype pyval = Float real | NaN | Bool bool

text \<open>\<^verbatim>\<open>float(indat[i])\<close> on the one-dimensional array numpy.loadtxt returns: an index
  past the end raises IndexError.\<close>

definition getitem :: "real list \<Rightarrow> nat \<Rightarrow> error + real" where
  "getitem a i = (if i < length a then Inr (a ! i) else Inl IndexError)"

definition bind_err :: "error + 'a \<Rightarrow> ('a \<Rightarrow> error + 'b) \<Rightarrow> error + 'b" where
  "bind_err r f = (case r of Inl e \<Rightarrow> Inl e | Inr v \<Rightarrow> f v)"

text \<open>Python's \<^verbatim>\<open>x / y\<close> on floats.\<close>

definition float_div :: "real \<Rightarrow> real \<Rightarrow> error + real" where
  "float_div x y = (if y = 0 then Inl ZeroDivisionError else Inr (x / y))"

text \<open>\<^verbatim>\<open>numpy.sqrt\<close> on a float.\<close>

definition numpy_sqrt :: "real \<Rightarrow> pyval" where
  "numpy_sqrt x = (if x < 0 then NaN else Float (sqrt x))"

subsection \<open>Module-level constants\<close>

text \<open>Lines 32 to 37: the problem dimensionality, the suggested initial time step and the
  final time.\<close>

definition dim :: nat where
  "dim = 3"

definition dt :: real where
  "dt = 1 / 100000"

definition tf :: real where
  "tf = 2"

text \<open>Lines 40 to 48: the physical constants of the run, loaded from INDAT.\<close>

record constants =
  H :: real
  B :: real
  gamma :: real
  eps :: real
  rho0 :: real
  alpha :: real
  beta :: real
  c0 :: pyval

definition load_constants :: "real list \<Rightarrow> error + constants" where
  "load_constants indat =
     bind_err (getitem indat 10) (\<lambda>vH.
     bind_err (getitem indat 11) (\<lambda>vB.
     bind_err (getitem indat 12) (\<lambda>vgamma.
     bind_err (getitem indat 14) (\<lambda>veps.
     bind_err (getitem indat 15) (\<lambda>vrho0.
     bind_err (getitem indat 16) (\<lambda>valpha.
     bind_err (float_div (vB * vgamma) vrho0) (\<lambda>q.
       Inr \<lparr>H = vH, B = vB, gamma = vgamma, eps = veps, rho0 = vrho0,
            alpha = valpha, beta = 0, c0 = numpy_sqrt q\<rparr>)))))))"

subsection \<open>The solver configuration\<close>

text \<open>The option \<^verbatim>\<open>--test\<close> of \<^verbatim>\<open>add_user_options\<close>: a flag stored as
  \<^verbatim>\<open>options.test\<close>, False unless given.\<close>

record options =
  test :: bool

definition default_options :: options where
  "default_options = \<lparr>test = False\<rparr>"

datatype kernel = CubicSpline nat

datatype stepper = WCSPHStep

text \<open>An integrator is built from keyword arguments, one stepper per species name.\<close>

datatype integrator =
    PECIntegrator "(string \<times> stepper) list"
  | EPECIntegrator "(string \<times> stepper) list"

fun steppers :: "integrator \<Rightarrow> (string \<times> stepper) list" where
  "steppers (PECIntegrator ss) = ss"
| "steppers (EPECIntegrator ss) = ss"

fun is_PEC :: "integrator \<Rightarrow> bool" where
  "is_PEC (PECIntegrator ss) = True"
| "is_PEC (EPECIntegrator ss) = False"

fun is_EPEC :: "integrator \<Rightarrow> bool" where
  "is_EPEC (PECIntegrator ss) = False"
| "is_EPEC (EPECIntegrator ss) = True"

record solver =
  s_dim :: nat
  s_kernel :: kernel
  s_integrator :: integrator
  s_adaptive_timestep :: bool
  s_tf :: real
  s_dt :: real
  s_n_damp :: nat

definition create_solver :: "options \<Rightarrow> solver" where
  "create_solver opts =
     (let kernel = CubicSpline 3;
          (integrator, adaptive, n_damp) =
            (if test opts
             then (PECIntegrator [(''fluid'', WCSPHStep), (''boundary'', WCSPHStep)], False, 0)
             else (EPECIntegrator [(''fluid'', WCSPHStep), (''boundary'', WCSPHStep)], True, 0))
      in \<lparr>s_dim = dim, s_kernel = kernel, s_integrator = integrator,
          s_adaptive_timestep = adaptive, s_tf = tf, s_dt = dt, s_n_damp = n_damp\<rparr>)"

subsection \<open>The equation pipeline\<close>

datatype eq_class =
  TaitEOS | TaitEOSHGCorrection | ContinuityEquation | MomentumEquation | XSPHCorrection

text \<open>An equation as the source constructs it: the class, the destination species, the
  source species (\<^verbatim>\<open>None\<close> or a list) and the other keyword arguments, in the order
  written.\<close>

record equation =
  cls :: eq_class
  dest :: string
  sources :: "string list option"
  kwargs :: "(string \<times> pyval) list"

definition kw :: "equation \<Rightarrow> string \<Rightarrow> pyval option" where
  "kw e name = map_of (kwargs e) name"

text \<open>A group: its equations and the keyword \<^verbatim>\<open>real\<close>, which the second group of the
  source does not pass.\<close>

record group =
  equations :: "equation list"
  real_kw :: "bool option"

definition create_equations :: "constants \<Rightarrow> group list" where
  "create_equations k =
     [ \<lparr>equations =
          [ \<lparr>cls = TaitEOS, dest = ''fluid'', sources = None,
             kwargs = [(''rho0'', Float (rho0 k)), (''c0'', c0 k), (''gamma'', Float (gamma k))]\<rparr>,
            \<lparr>cls = TaitEOSHGCorrection, dest = ''boundary'', sources = None,
             kwargs = [(''rho0'', Float (rho0 k)), (''c0'', c0 k), (''gamma'', Float (gamma k))]\<rparr> ],
        real_kw = Some False\<rparr>,
       \<lparr>equations =
          [ \<lparr>cls = ContinuityEquation, dest = ''fluid'',
             sources = Some [''fluid'', ''boundary''], kwargs = []\<rparr>,
            \<lparr>cls = ContinuityEquation, dest = ''boundary'',
             sources = Some [''fluid''], kwargs = []\<rparr>,
            \<lparr>cls = MomentumEquation, dest = ''fluid'',
             sources = Some [''fluid'', ''boundary''],
             kwargs = [(''c0'', c0 k), (''alpha'', Float (alpha k)), (''beta'', Float (beta k)),
                       (''gz'', Float (- 981 / 100)), (''tensile_correction'', Bool True)]\<rparr>,
            \<lparr>cls = XSPHCorrection, dest = ''fluid'', sources = Some [''fluid''],
             kwargs = [(''eps'', Float (eps k))]\<rparr> ],
        real_kw = None\<rparr> ]"

text \<open>All equations of a pipeline, in evaluation order.\<close>

definition all_equations :: "group list \<Rightarrow> equation list" where
  "all_equations gs = concat (map equations gs)"

subsection \<open>Classes of equations the properties speak of\<close>

definition is_eos :: "equation \<Rightarrow> bool" where
  "is_eos e = (cls e = TaitEOS \<or> cls e = TaitEOSHGCorrection)"

definition is_dynamics :: "equation \<Rightarrow> bool" where
  "is_dynamics e =
     (cls e = ContinuityEquation \<or> cls e = MomentumEquation \<or> cls e = XSPHCorrection)"

definition takes_c0 :: "eq_class \<Rightarrow> bool" where
  "takes_c0 c = (c = TaitEOS \<or> c = TaitEOSHGCorrection \<or> c = MomentumEquation)"

definition momentum_equations :: "group list \<Rightarrow> equation list" where
  "momentum_equations gs = filter (\<lambda>e. cls e = MomentumEquation) (all_equations gs)"

definition continuity_for :: "string \<Rightarrow> group list \<Rightarrow> equation list" where
  "continuity_for d gs =
     filter (\<lambda>e. cls e = ContinuityEquation \<and> dest e = d) (all_equations gs)"

definition stepper_of :: "integrator \<Rightarrow> string \<Rightarrow> stepper option" where
  "stepper_of I s = map_of (steppers I) s"

definition writes_velocity_rate :: "string \<Rightarrow> equation \<Rightarrow> bool" where
  "writes_velocity_rate s e = (dest e = s \<and> cls e = MomentumEquation)"

definition writes_position_rate :: "string \<Rightarrow> equation \<Rightarrow> bool" where
  "writes_position_rate s e = (dest e = s \<and> cls e = XSPHCorrection)"

subsection \<open>An example parameter file\<close>

text \<open>A parameter file of seventeen entries with bulk modulus 175000, polytropic exponent 7
  and reference density 1000, so that the sound speed is 35, and the constants loaded from
  it.\<close>

definition example_indat :: "real list" where
  "example_indat = [0, 0, 0, 0, 0, 0, 0, 0, 0, 0, 1 / 50, 175000, 7, 0, 1 / 2, 1000, 1 / 10]"

definition example_constants :: constants where
  "example_constants = \<lparr>H = 1 / 50, B = 175000, gamma = 7, eps = 1 / 2, rho0 = 1000,
      alpha = 1 / 10, beta = 0, c0 = Float 35\<rparr>"

section \<open>The library behind the example\<close>

text \<open>
  The equation classes, the integrators, the stepper and the solver are imported by the
  source from other modules of pysph, which are not part of the sources at hand. What the
  properties below need of them is modelled from the specification. The kernel, the
  neighbour search and the pair formulas the specification does not give are parameters.
\<close>

subsection \<open>Particles\<close>

text \<open>Modelled from the spec: positions, velocities and their rates are vectors; the
  vector type of the absent particle arrays, in three dimensions, with its zero.\<close>

type_synonym vec = "real \<times> real \<times> real"

definition vzero :: vec where
  "vzero = (0, 0, 0)"

text \<open>Modelled from the spec: the sum of two vectors (the absent array arithmetic).\<close>

fun vadd :: "vec \<Rightarrow> vec \<Rightarrow> vec" where
  "vadd (a1, a2, a3) (b1, b2, b3) = (a1 + b1, a2 + b2, a3 + b3)"

text \<open>Modelled from the spec: the difference of two vectors (the absent array arithmetic).\<close>

fun vsub :: "vec \<Rightarrow> vec \<Rightarrow> vec" where
  "vsub (a1, a2, a3) (b1, b2, b3) = (a1 - b1, a2 - b2, a3 - b3)"

text \<open>Modelled from the spec: a vector scaled by a number (the absent array arithmetic).\<close>

fun vscale :: "real \<Rightarrow> vec \<Rightarrow> vec" where
  "vscale c (a1, a2, a3) = (c * a1, c * a2, c * a3)"

text \<open>Modelled from the spec: the scalar product of the continuity formula (the absent array
  arithmetic).\<close>

fun dot :: "vec \<Rightarrow> vec \<Rightarrow> real" where
  "dot (a1, a2, a3) (b1, b2, b3) = a1 * b1 + a2 * b2 + a3 * b3"

text \<open>Modelled from the spec: the sum of a list of vector contributions (the absent array
  arithmetic).\<close>

definition vsum :: "vec list \<Rightarrow> vec" where
  "vsum vs = foldr vadd vs vzero"

text \<open>Modelled from the spec: the row of the absent particle arrays (section 3): position,
  velocity, density, pressure, mass and smoothing length, and the accumulators of one
  evaluation pass: the rates of density, of velocity (the acceleration) and of position.\<close>

record particle =
  position :: vec
  velocity :: vec
  density :: real
  pressure :: real
  mass :: real
  smoothing_length :: real
  d_density :: real
  d_velocity :: vec
  d_position :: vec

text \<open>Modelled from the spec: the absent ParticleSet, a mapping from species name to the
  particles of the species; a species that is not configured has no particles.\<close>

type_synonym particle_set = "string \<Rightarrow> particle list"

text \<open>Modelled from the spec: the state a stepper integrates and the constants of a particle,
  which no equation of the absent library writes.\<close>

definition state_fields :: "particle \<Rightarrow> vec \<times> vec \<times> real \<times> real \<times> real" where
  "state_fields a = (position a, velocity a, density a, mass a, smoothing_length a)"

text \<open>Modelled from the spec: a particle whose acceleration and position rate are at their
  zeroed values (the accumulators of the absent particle arrays).\<close>

definition at_rest :: "particle \<Rightarrow> bool" where
  "at_rest a = (d_velocity a = vzero \<and> d_position a = vzero)"

subsection \<open>Evaluating the pipeline\<close>

text \<open>Modelled from the spec: what the absent collaborators and equation classes compute, taken
  as parameters: the neighbour search (the neighbours of a destination particle in a source
  species), the kernel gradient, the pressure rule of an equation of state, the pair term and
  the body force of the momentum equation, and the pair term of the XSPH correction.\<close>

record physics =
  neighbours :: "particle_set \<Rightarrow> string \<Rightarrow> particle \<Rightarrow> particle list"
  gradient :: "vec \<Rightarrow> real \<Rightarrow> vec"
  eos :: "equation \<Rightarrow> particle \<Rightarrow> real"
  momentum_pair :: "equation \<Rightarrow> particle \<Rightarrow> particle \<Rightarrow> vec"
  body_force :: "equation \<Rightarrow> vec"
  xsph_pair :: "equation \<Rightarrow> particle \<Rightarrow> particle \<Rightarrow> vec"

text \<open>Modelled from the spec: the source species an absent equation class gathers neighbours
  from; sources = none means no neighbours.\<close>

definition source_list :: "equation \<Rightarrow> string list" where
  "source_list e = (case sources e of None \<Rightarrow> [] | Some ss \<Rightarrow> ss)"

text \<open>Modelled from the spec: the pair term of the absent ContinuityEquation (section 4.3),
  the neighbour's mass times the scalar product of the velocity difference and the kernel
  gradient.\<close>

definition continuity_term :: "physics \<Rightarrow> particle \<Rightarrow> particle \<Rightarrow> real" where
  "continuity_term ph a b =
     mass b * dot (vsub (velocity a) (velocity b))
                  (gradient ph (vsub (position a) (position b)) (smoothing_length a))"

text \<open>Modelled from the spec: the contribution of one source species to the density rate of
  a destination particle, in the absent ContinuityEquation.\<close>

definition sum_from :: "physics \<Rightarrow> particle_set \<Rightarrow> string \<Rightarrow> particle \<Rightarrow> real" where
  "sum_from ph ps s a = (\<Sum>b\<leftarrow>neighbours ph ps s a. continuity_term ph a b)"

text \<open>Modelled from the spec: the density rate the absent ContinuityEquation accumulates
  (section 4.3): the pair terms over the neighbours, summed across every listed source
  species.\<close>

definition continuity_rate :: "physics \<Rightarrow> particle_set \<Rightarrow> equation \<Rightarrow> particle \<Rightarrow> real" where
  "continuity_rate ph ps e a =
     (\<Sum>s\<leftarrow>source_list e. \<Sum>b\<leftarrow>neighbours ph ps s a. continuity_term ph a b)"

text \<open>Modelled from the spec: the acceleration the absent MomentumEquation accumulates
  (section 4.4): the body force and the pair terms over the neighbours of every listed
  source species.\<close>

definition momentum_rate :: "physics \<Rightarrow> particle_set \<Rightarrow> equation \<Rightarrow> particle \<Rightarrow> vec" where
  "momentum_rate ph ps e a =
     vadd (body_force ph e)
       (vsum (map (\<lambda>s. vsum (map (momentum_pair ph e a) (neighbours ph ps s a)))
                  (source_list e)))"

text \<open>Modelled from the spec: the position rate of the absent XSPHCorrection (section 4.5):
  the particle's velocity and the pair terms over the neighbours of every listed source
  species.\<close>

definition xsph_rate :: "physics \<Rightarrow> particle_set \<Rightarrow> equation \<Rightarrow> particle \<Rightarrow> vec" where
  "xsph_rate ph ps e a =
     vadd (velocity a)
       (vsum (map (\<lambda>s. vsum (map (xsph_pair ph e a) (neighbours ph ps s a)))
                  (source_list e)))"

text \<open>Modelled from the spec: the accumulators are zeroed at the start of each evaluation
  pass (section 3; the evaluation engine is absent).\<close>

definition zero_accumulators :: "particle \<Rightarrow> particle" where
  "zero_accumulators a = a\<lparr>d_density := 0, d_velocity := vzero, d_position := vzero\<rparr>"

text \<open>Modelled from the spec: what an equation of each absent class writes to one destination
  particle (sections 4.2 to 4.5): an equation of state the pressure, the continuity equation
  the density rate, the momentum equation the acceleration, the XSPH correction the position
  rate.\<close>

definition apply_equation :: "physics \<Rightarrow> particle_set \<Rightarrow> equation \<Rightarrow> particle \<Rightarrow> particle" where
  "apply_equation ph ps e a =
     (case cls e of
        TaitEOS \<Rightarrow> a\<lparr>pressure := eos ph e a\<rparr>
      | TaitEOSHGCorrection \<Rightarrow> a\<lparr>pressure := eos ph e a\<rparr>
      | ContinuityEquation \<Rightarrow> a\<lparr>d_density := d_density a + continuity_rate ph ps e a\<rparr>
      | MomentumEquation \<Rightarrow> a\<lparr>d_velocity := vadd (d_velocity a) (momentum_rate ph ps e a)\<rparr>
      | XSPHCorrection \<Rightarrow> a\<lparr>d_position := vadd (d_position a) (xsph_rate ph ps e a)\<rparr>)"

text \<open>Modelled from the spec: the absent evaluation of one equation (section 4.6): every
  particle of the destination species is updated, the other species are left as they are.\<close>

definition eval_equation :: "physics \<Rightarrow> equation \<Rightarrow> particle_set \<Rightarrow> particle_set" where
  "eval_equation ph e ps = ps(dest e := map (apply_equation ph ps e) (ps (dest e)))"

text \<open>Modelled from the spec: the absent evaluation of a group (section 4.6), equation by
  equation. The flag for real particles is a no-op in a single process.\<close>

definition eval_group :: "physics \<Rightarrow> group \<Rightarrow> particle_set \<Rightarrow> particle_set" where
  "eval_group ph g ps = foldl (\<lambda>s e. eval_equation ph e s) ps (equations g)"

text \<open>Modelled from the spec: one full pipeline evaluation of the absent engine (section
  4.6): the accumulators are zeroed, then the groups are evaluated in declared order.\<close>

definition eval_pipeline :: "physics \<Rightarrow> group list \<Rightarrow> particle_set \<Rightarrow> particle_set" where
  "eval_pipeline ph gs ps =
     foldl (\<lambda>s g. eval_group ph g s) (\<lambda>sp. map zero_accumulators (ps sp)) gs"

subsection \<open>The integrator\<close>

text \<open>Modelled from the spec: the state fields a stepper can predict and correct (section
  4.7; the stepper classes are absent).\<close>

datatype field = Position | Velocity | Density

text \<open>Modelled from the spec: the fields the absent WCSPHStep steps. It is the stepper the
  source gives the fluid species, and a fluid species uses full position, velocity and density
  stepping (sections 3 and 4.7).\<close>

fun stepped_fields :: "stepper \<Rightarrow> field set" where
  "stepped_fields WCSPHStep = {Position, Velocity, Density}"

text \<open>Modelled from the spec: the predictor of the absent WCSPHStep (section 4.7): the
  half-step state from the state at the start of the step and the current rates.\<close>

fun predict :: "stepper \<Rightarrow> real \<Rightarrow> particle \<Rightarrow> particle \<Rightarrow> particle" where
  "predict WCSPHStep d a0 a =
     a\<lparr>position := vadd (position a0) (vscale (d / 2) (d_position a)),
       velocity := vadd (velocity a0) (vscale (d / 2) (d_velocity a)),
       density := density a0 + d / 2 * d_density a\<rparr>"

text \<open>Modelled from the spec: the corrector of the absent WCSPHStep (section 4.7): the
  full-step state from the state at the start of the step and the newly evaluated rates.\<close>

fun correct :: "stepper \<Rightarrow> real \<Rightarrow> particle \<Rightarrow> particle \<Rightarrow> particle" where
  "correct WCSPHStep d a0 a =
     a\<lparr>position := vadd (position a0) (vscale d (d_position a)),
       velocity := vadd (velocity a0) (vscale d (d_velocity a)),
       density := density a0 + d * d_density a\<rparr>"

text \<open>Modelled from the spec: one stage of the absent integrator: every species is stepped by
  its own stepper, from the particles at the start of the step and the current ones; a
  species without a stepper is left as it is.\<close>

definition stage ::
  "(stepper \<Rightarrow> real \<Rightarrow> particle \<Rightarrow> particle \<Rightarrow> particle) \<Rightarrow> (string \<times> stepper) list \<Rightarrow> real
     \<Rightarrow> particle_set \<Rightarrow> particle_set \<Rightarrow> particle_set" where
  "stage f sts d ps0 ps =
     (\<lambda>s. case map_of sts s of
             None \<Rightarrow> ps s
           | Some st \<Rightarrow> map2 (f st d) (ps0 s) (ps s))"

text \<open>Modelled from the spec: one time step of the absent integrators (section 4.7). PEC
  predicts, evaluates the pipeline once and corrects; EPEC evaluates the pipeline at the
  current state first, then predicts, evaluates again and corrects.\<close>

fun integrate ::
  "integrator \<Rightarrow> (particle_set \<Rightarrow> particle_set) \<Rightarrow> real \<Rightarrow> particle_set \<Rightarrow> particle_set" where
  "integrate (PECIntegrator sts) evaluate d ps =
     stage correct sts d ps (evaluate (stage predict sts d ps ps))"
| "integrate (EPECIntegrator sts) evaluate d ps =
     stage correct sts d ps (evaluate (stage predict sts d ps (evaluate ps)))"

subsection \<open>The solver loop\<close>

text \<open>Modelled from the spec: the state of the absent Solver that its loop mutates (section
  3): the current time, the timestep, the number of steps taken, and the particles.\<close>

record solver_state =
  time :: real
  timestep :: real
  step_count :: nat
  particles :: particle_set

text \<open>Modelled from the spec: the absent Solver starts at time zero with the configured
  timestep.\<close>

definition initial_state :: "solver \<Rightarrow> particle_set \<Rightarrow> solver_state" where
  "initial_state cfg ps = \<lparr>time = 0, timestep = s_dt cfg, step_count = 0, particles = ps\<rparr>"

text \<open>Modelled from the spec: the absent Solver recomputes the timestep from a stability
  condition when adaptive timestepping is enabled (section 4.8). The specification leaves
  the formula open, so it is the parameter \<open>cfl\<close>.\<close>

definition next_dt :: "solver \<Rightarrow> (particle_set \<Rightarrow> real) \<Rightarrow> solver_state \<Rightarrow> real" where
  "next_dt cfg cfl s = (if s_adaptive_timestep cfg then cfl (particles s) else timestep s)"

text \<open>Modelled from the spec: the absent Solver applies startup damping to the first n_damp
  steps (section 4.8); how it reduces the timestep is the parameter \<open>damp\<close>.\<close>

definition damped :: "solver \<Rightarrow> (nat \<Rightarrow> real \<Rightarrow> real) \<Rightarrow> solver_state \<Rightarrow> real \<Rightarrow> real" where
  "damped cfg damp s d = (if step_count s < s_n_damp cfg then damp (step_count s) d else d)"

text \<open>Modelled from the spec: one iteration of the absent Solver's loop (section 4.8):
  the timestep is settled, the integrator advances the particles by it, and the time
  advances.\<close>

definition solver_step ::
  "solver \<Rightarrow> (particle_set \<Rightarrow> real) \<Rightarrow> (nat \<Rightarrow> real \<Rightarrow> real)
     \<Rightarrow> (real \<Rightarrow> particle_set \<Rightarrow> particle_set) \<Rightarrow> solver_state \<Rightarrow> solver_state" where
  "solver_step cfg cfl damp advance s =
     (let d = damped cfg damp s (next_dt cfg cfl s)
      in \<lparr>time = time s + d, timestep = d, step_count = Suc (step_count s),
          particles = advance d (particles s)\<rparr>)"

text \<open>Modelled from the spec: the absent Solver's loop (section 4.8), which runs until the
  time reaches the termination time. The loop need not end, so it is bounded by a number of
  iterations; it yields the sequence of states, the last one first reached at the bound or
  at termination.\<close>

fun solve ::
  "nat \<Rightarrow> solver \<Rightarrow> (particle_set \<Rightarrow> real) \<Rightarrow> (nat \<Rightarrow> real \<Rightarrow> real)
     \<Rightarrow> (real \<Rightarrow> particle_set \<Rightarrow> particle_set) \<Rightarrow> solver_state \<Rightarrow> solver_state list" where
  "solve 0 cfg cfl damp advance s = [s]"
| "solve (Suc n) cfg cfl damp advance s =
     (if s_tf cfg \<le> time s then [s]
      else s # solve n cfg cfl damp advance (solver_step cfg cfl damp advance s))"

text \<open>Modelled from the spec: the absent Solver's loop terminates when the time has reached
  the termination time (section 4.8).\<close>

definition terminated :: "solver \<Rightarrow> solver_state \<Rightarrow> bool" where
  "terminated cfg s = (s_tf cfg \<le> time s)"

subsection \<open>An example particle set\<close>

text \<open>One moving fluid particle and one boundary particle, both with stale accumulators,
  and a toy instance of the parameters: every particle of a source species is a neighbour,
  and the kernel gradient is the displacement.\<close>

definition example_fluid :: particle where
  "example_fluid = \<lparr>position = (0, 0, 0), velocity = (1, 0, 0), density = 1000, pressure = 0,
      mass = 1, smoothing_length = 1 / 50, d_density = 5, d_velocity = (1, 2, 3),
      d_position = (4, 5, 6)\<rparr>"

definition example_boundary :: particle where
  "example_boundary = \<lparr>position = (1, 0, 0), velocity = (0, 0, 0), density = 1000, pressure = 0,
      mass = 2, smoothing_length = 1 / 50, d_density = 5, d_velocity = (1, 2, 3),
      d_position = (4, 5, 6)\<rparr>"

definition example_particles :: particle_set where
  "example_particles =
     (\<lambda>s. if s = ''fluid'' then [example_fluid]
          else if s = ''boundary'' then [example_boundary] else [])"

definition example_physics :: physics where
  "example_physics =
     \<lparr>neighbours = (\<lambda>ps s a. ps s), gradient = (\<lambda>r h. r), eos = (\<lambda>e a. density a - 1000),
      momentum_pair = (\<lambda>e a b. (1, 1, 1)), body_force = (\<lambda>e. (0, 0, - 981 / 100)),
      xsph_pair = (\<lambda>e a b. (0, 0, 0))\<rparr>"

section \<open>Loading the constants\<close>

lemma sqrt_1225: "sqrt 1225 = 35"
  by (rule real_sqrt_unique) simp_all

lemma load_example: "load_constants example_indat = Inr example_constants"
  by (simp add: load_constants_def example_indat_def example_constants_def getitem_def
      bind_err_def float_div_def numpy_sqrt_def sqrt_1225)

text \<open>A parameter file too short for the indices read raises IndexError, and a reference
  density of zero raises ZeroDivisionError.\<close>

lemma load_constants_short: "length indat \<le> 16 \<Longrightarrow> load_constants indat = Inl IndexError"
  by (simp add: load_constants_def getitem_def bind_err_def)

lemma load_constants_zero_density:
  "16 < length indat \<Longrightarrow> indat ! 15 = 0 \<Longrightarrow> load_constants indat = Inl ZeroDivisionError"
  by (simp add: load_constants_def getitem_def bind_err_def float_div_def)

lemma load_constants_Inr:
  assumes "load_constants indat = Inr k"
  shows "16 < length indat" and "H k = indat ! 10" and "B k = indat ! 11"
    and "gamma k = indat ! 12" and "eps k = indat ! 14" and "rho0 k = indat ! 15"
    and "alpha k = indat ! 16" and "beta k = 0" and "rho0 k \<noteq> 0"
    and "c0 k = numpy_sqrt (B k * gamma k / rho0 k)"
  using assms
  by (auto simp: load_constants_def getitem_def bind_err_def float_div_def
      split: if_splits)

section \<open>The integrator chosen by the test option\<close>

text \<open>
  C1. Run with the option \<^verbatim>\<open>--test\<close>, \<^verbatim>\<open>create_solver\<close> constructs a PEC
  integrator; run without it, an EPEC integrator. In both cases the integrator assigns a
  stepper to the species fluid and a stepper to the species boundary.
\<close>

theorem create_solver_integrator:
  "is_PEC (s_integrator (create_solver opts)) = test opts
   \<and> is_EPEC (s_integrator (create_solver opts)) = (\<not> test opts)
   \<and> is_EPEC (s_integrator (create_solver default_options))
   \<and> map_of (steppers (s_integrator (create_solver opts))) ''fluid'' = Some WCSPHStep
   \<and> map_of (steppers (s_integrator (create_solver opts))) ''boundary'' = Some WCSPHStep
   \<and> map fst (steppers (s_integrator (create_solver opts))) = [''fluid'', ''boundary'']"
  by (simp add: create_solver_def default_options_def)

theorem create_solver_integrator_witness:
  "s_integrator (create_solver \<lparr>test = True\<rparr>) =
     PECIntegrator [(''fluid'', WCSPHStep), (''boundary'', WCSPHStep)]
   \<and> s_integrator (create_solver \<lparr>test = False\<rparr>) =
     EPECIntegrator [(''fluid'', WCSPHStep), (''boundary'', WCSPHStep)]"
  using create_solver_integrator [of "\<lparr>test = True\<rparr>"]
    create_solver_integrator [of "\<lparr>test = False\<rparr>"]
  by (simp add: create_solver_def)

section \<open>The order of the groups\<close>

text \<open>
  C2. In the pipeline \<^verbatim>\<open>create_equations\<close> returns, the group of the equations of state
  (TaitEOS on fluid, TaitEOSHGCorrection on boundary) stands strictly before the group of
  the continuity, momentum and XSPH equations: every group holding an equation of state has
  a smaller index than every group holding one of the others.
\<close>

theorem eos_group_first:
  "map (\<lambda>g. map (\<lambda>e. (cls e, dest e)) (equations g)) (create_equations k) =
     [ [(TaitEOS, ''fluid''), (TaitEOSHGCorrection, ''boundary'')],
       [(ContinuityEquation, ''fluid''), (ContinuityEquation, ''boundary''),
        (MomentumEquation, ''fluid''), (XSPHCorrection, ''fluid'')] ]
   \<and> (\<forall>i < length (create_equations k). \<forall>j < length (create_equations k).
         list_ex is_eos (equations (create_equations k ! i))
         \<and> list_ex is_dynamics (equations (create_equations k ! j)) \<longrightarrow> i < j)"
proof -
  have len: "length (create_equations k) = 2"
    by (simp add: create_equations_def)
  have g0: "\<not> list_ex is_dynamics (equations (create_equations k ! 0))"
    by (simp add: create_equations_def is_dynamics_def)
  have g1: "\<not> list_ex is_eos (equations (create_equations k ! 1))"
    by (simp add: create_equations_def is_eos_def)
  have order: "i < j"
    if "i < 2" "j < 2" "list_ex is_eos (equations (create_equations k ! i))"
      "list_ex is_dynamics (equations (create_equations k ! j))" for i j
  proof -
    from that(1) g1 that(3) have "i = 0"
      by (cases "i = 0") (auto simp: less_2_cases_iff)
    moreover from that(2) g0 that(4) have "j = 1"
      by (cases "j = 0") (auto simp: less_2_cases_iff)
    ultimately show ?thesis by simp
  qed
  have shape: "map (\<lambda>g. map (\<lambda>e. (cls e, dest e)) (equations g)) (create_equations k) =
     [ [(TaitEOS, ''fluid''), (TaitEOSHGCorrection, ''boundary'')],
       [(ContinuityEquation, ''fluid''), (ContinuityEquation, ''boundary''),
        (MomentumEquation, ''fluid''), (XSPHCorrection, ''fluid'')] ]"
    by (simp add: create_equations_def)
  from shape order len show ?thesis by simp
qed

theorem eos_group_first_witness:
  "list_ex is_eos (equations (create_equations example_constants ! 0))
   \<and> list_ex is_dynamics (equations (create_equations example_constants ! 1))
   \<and> (0::nat) < length (create_equations example_constants)
   \<and> (1::nat) < length (create_equations example_constants)
   \<and> (0::nat) < 1"
  using eos_group_first [of example_constants]
  by (simp add: create_equations_def is_eos_def is_dynamics_def)

text \<open>In the modelled evaluation the groups run in this order: the second group is evaluated
  on the particles the group of the equations of state has left.\<close>

lemma pipeline_evaluates_eos_group_first:
  "eval_pipeline ph (create_equations k) ps =
     eval_group ph (create_equations k ! 1)
       (eval_group ph (create_equations k ! 0) (\<lambda>sp. map zero_accumulators (ps sp)))"
  by (simp add: eval_pipeline_def create_equations_def)

section \<open>The sound speed\<close>

text \<open>
  C3. The sound speed c0 passed to every equation that takes it (TaitEOS,
  TaitEOSHGCorrection, MomentumEquation) is the square root of B times gamma over rho0, where
  B, gamma and rho0 are read from the INDAT parameter file (entries 11, 12 and 15). It is
  computed once, when the constants are loaded, and passed to each equation as a keyword
  argument; no other equation takes it.
\<close>

theorem sound_speed_passed:
  assumes "load_constants indat = Inr k"
  shows "B k = indat ! 11 \<and> gamma k = indat ! 12 \<and> rho0 k = indat ! 15
     \<and> 15 < length indat \<and> rho0 k \<noteq> 0
     \<and> c0 k = numpy_sqrt (B k * gamma k / rho0 k)
     \<and> (0 \<le> B k * gamma k / rho0 k \<longrightarrow> c0 k = Float (sqrt (B k * gamma k / rho0 k)))
     \<and> list_all (\<lambda>e. kw e ''c0'' = (if takes_c0 (cls e) then Some (c0 k) else None))
          (all_equations (create_equations k))
     \<and> map cls (filter (\<lambda>e. kw e ''c0'' \<noteq> None) (all_equations (create_equations k))) =
          [TaitEOS, TaitEOSHGCorrection, MomentumEquation]"
proof -
  note c = load_constants_Inr [OF assms]
  have "0 \<le> B k * gamma k / rho0 k \<longrightarrow> c0 k = Float (sqrt (B k * gamma k / rho0 k))"
    by (simp add: c(10) numpy_sqrt_def)
  moreover have "list_all (\<lambda>e. kw e ''c0'' = (if takes_c0 (cls e) then Some (c0 k) else None))
          (all_equations (create_equations k))"
    by (simp add: all_equations_def create_equations_def kw_def takes_c0_def)
  moreover have "map cls (filter (\<lambda>e. kw e ''c0'' \<noteq> None) (all_equations (create_equations k))) =
          [TaitEOS, TaitEOSHGCorrection, MomentumEquation]"
    by (simp add: all_equations_def create_equations_def kw_def)
  ultimately show ?thesis using c by simp
qed

theorem sound_speed_passed_witness:
  "load_constants example_indat = Inr example_constants
   \<and> c0 example_constants = Float 35
   \<and> (0::real) \<le> B example_constants * gamma example_constants / rho0 example_constants
   \<and> sqrt (B example_constants * gamma example_constants / rho0 example_constants) = 35
   \<and> map (\<lambda>e. kw e ''c0'') (all_equations (create_equations example_constants)) =
       [Some (Float 35), Some (Float 35), None, None, Some (Float 35), None]"
  using sound_speed_passed [OF load_example] load_example
  by (simp add: example_constants_def all_equations_def create_equations_def
      kw_def sqrt_1225 numpy_sqrt_def takes_c0_def)

section \<open>The continuity equations\<close>

text \<open>
  C4. In the pipeline, the continuity equation with destination fluid lists the two source
  species fluid and boundary, and the one with destination boundary lists fluid only. The
  density rate of a fluid particle is the sum of the contribution of its fluid neighbours
  and the contribution of its boundary neighbours (both are added, none is chosen over the
  other); the density rate of a boundary particle is the contribution of its fluid
  neighbours.
\<close>

theorem continuity_sources_summed:
  "map sources (continuity_for ''fluid'' (create_equations k)) = [Some [''fluid'', ''boundary'']]
   \<and> map sources (continuity_for ''boundary'' (create_equations k)) = [Some [''fluid'']]
   \<and> list_all (\<lambda>e. continuity_rate ph ps e a =
          sum_from ph ps ''fluid'' a + sum_from ph ps ''boundary'' a
        \<and> d_density (apply_equation ph ps e a) =
          d_density a + sum_from ph ps ''fluid'' a + sum_from ph ps ''boundary'' a)
       (continuity_for ''fluid'' (create_equations k))
   \<and> list_all (\<lambda>e. continuity_rate ph ps e a = sum_from ph ps ''fluid'' a
        \<and> d_density (apply_equation ph ps e a) = d_density a + sum_from ph ps ''fluid'' a)
       (continuity_for ''boundary'' (create_equations k))"
  by (simp add: continuity_for_def all_equations_def create_equations_def continuity_rate_def
      source_list_def sum_from_def apply_equation_def)

theorem continuity_sources_summed_witness:
  "map (\<lambda>e. continuity_rate example_physics example_particles e example_fluid)
     (continuity_for ''fluid'' (create_equations example_constants)) = [- 2]
   \<and> sum_from example_physics example_particles ''fluid'' example_fluid = 0
   \<and> sum_from example_physics example_particles ''boundary'' example_fluid = - 2
   \<and> map (\<lambda>e. continuity_rate example_physics example_particles e example_boundary)
     (continuity_for ''boundary'' (create_equations example_constants)) = [- 1]"
  using continuity_sources_summed [of example_constants example_physics example_particles
      example_fluid]
    continuity_sources_summed [of example_constants example_physics example_particles
      example_boundary]
  by (simp add: continuity_for_def all_equations_def create_equations_def sum_from_def
      example_physics_def example_particles_def example_fluid_def example_boundary_def
      continuity_term_def)

section \<open>The equations of state\<close>

text \<open>
  C5. The pipeline has two equations of state, the plain Tait equation for destination fluid
  and the variant with the HG correction for destination boundary. Both are configured with
  sources = None and with the same constants rho0, c0 and gamma.
\<close>

theorem eos_equations_config:
  "map (\<lambda>e. (cls e, dest e)) (filter is_eos (all_equations (create_equations k))) =
     [(TaitEOS, ''fluid''), (TaitEOSHGCorrection, ''boundary'')]
   \<and> list_all (\<lambda>e. sources e = None
        \<and> kwargs e = [(''rho0'', Float (rho0 k)), (''c0'', c0 k), (''gamma'', Float (gamma k))]
        \<and> kw e ''rho0'' = Some (Float (rho0 k))
        \<and> kw e ''c0'' = Some (c0 k)
        \<and> kw e ''gamma'' = Some (Float (gamma k)))
       (filter is_eos (all_equations (create_equations k)))"
  by (simp add: all_equations_def create_equations_def is_eos_def kw_def)

theorem eos_equations_config_witness:
  "map (\<lambda>e. (cls e, dest e, sources e, kwargs e))
     (filter is_eos (all_equations (create_equations example_constants))) =
     [(TaitEOS, ''fluid'', None,
       [(''rho0'', Float 1000), (''c0'', Float 35), (''gamma'', Float 7)]),
      (TaitEOSHGCorrection, ''boundary'', None,
       [(''rho0'', Float 1000), (''c0'', Float 35), (''gamma'', Float 7)])]"
  using eos_equations_config [of example_constants]
  by (simp add: all_equations_def create_equations_def is_eos_def example_constants_def)

section \<open>The momentum equation\<close>

text \<open>
  C6. The pipeline has one momentum equation. Its destination is fluid and its sources are
  fluid and boundary; the tensile correction is enabled; the only component of gravity passed
  is gz, with the value -9.81 (gx and gy are not passed); and the coefficient alpha is the
  value read from the parameter file (entry 16).
\<close>

theorem momentum_equation_config:
  assumes "load_constants indat = Inr k"
  shows "map (\<lambda>e. (dest e, sources e)) (momentum_equations (create_equations k)) =
       [(''fluid'', Some [''fluid'', ''boundary''])]
     \<and> list_all (\<lambda>e. kw e ''tensile_correction'' = Some (Bool True)
          \<and> kw e ''gz'' = Some (Float (- 981 / 100))
          \<and> kw e ''gx'' = None \<and> kw e ''gy'' = None
          \<and> kw e ''alpha'' = Some (Float (indat ! 16)))
         (momentum_equations (create_equations k))
     \<and> 16 < length indat"
  using load_constants_Inr(1,7) [OF assms]
  by (simp add: momentum_equations_def all_equations_def create_equations_def kw_def)

theorem momentum_equation_config_witness:
  "load_constants example_indat = Inr example_constants
   \<and> map (\<lambda>e. (dest e, sources e, kwargs e))
       (momentum_equations (create_equations example_constants)) =
       [(''fluid'', Some [''fluid'', ''boundary''],
         [(''c0'', Float 35), (''alpha'', Float (1 / 10)), (''beta'', Float 0),
          (''gz'', Float (- 981 / 100)), (''tensile_correction'', Bool True)])]
   \<and> example_indat ! 16 = 1 / 10"
  using momentum_equation_config [OF load_example] load_example
  by (simp add: momentum_equations_def all_equations_def create_equations_def kw_def
      example_constants_def example_indat_def)

section \<open>The bulk viscosity coefficient\<close>

text \<open>
  C9. The coefficient beta of the momentum equation is the constant 0: whatever the parameter
  file holds, the loaded beta is 0, while alpha is entry 16 of the file. The momentum equation
  is the only equation passed a beta, and any quantity weighted by it (the bulk term of the
  artificial viscosity, for every pair of particles) is zero.
\<close>

theorem beta_hard_coded_zero:
  assumes "load_constants indat = Inr k"
  shows "beta k = 0 \<and> alpha k = indat ! 16
     \<and> list_all (\<lambda>e. kw e ''beta'' = (if cls e = MomentumEquation then Some (Float 0) else None))
         (all_equations (create_equations k))
     \<and> list_all (\<lambda>e. kw e ''alpha'' = Some (Float (indat ! 16)))
         (momentum_equations (create_equations k))
     \<and> (\<forall>q. beta k * q = 0)"
  using load_constants_Inr(7,8) [OF assms]
  by (simp add: momentum_equations_def all_equations_def create_equations_def kw_def)

theorem beta_hard_coded_zero_witness:
  "load_constants example_indat = Inr example_constants
   \<and> beta example_constants = 0
   \<and> alpha example_constants = 1 / 10
   \<and> map (\<lambda>e. kw e ''beta'') (all_equations (create_equations example_constants)) =
       [None, None, None, None, Some (Float 0), None]"
  using beta_hard_coded_zero [OF load_example] load_example
  by (simp add: all_equations_def create_equations_def kw_def example_constants_def)

section \<open>What a pipeline evaluation leaves unchanged\<close>

text \<open>No equation writes the position, velocity, density, mass or smoothing length of a
  particle, so a pipeline evaluation keeps them, for every pipeline and species.\<close>

lemma apply_equation_state: "state_fields (apply_equation ph ps e a) = state_fields a"
  by (simp add: apply_equation_def state_fields_def split: eq_class.splits)

lemma eval_equation_state:
  "map state_fields (eval_equation ph e ps s) = map state_fields (ps s)"
  by (simp add: eval_equation_def apply_equation_state)

lemma foldl_eval_equation_state:
  "map state_fields (foldl (\<lambda>s e. eval_equation ph e s) ps es s) = map state_fields (ps s)"
  by (induction es arbitrary: ps) (simp_all add: eval_equation_state)

lemma eval_group_state:
  "map state_fields (eval_group ph g ps s) = map state_fields (ps s)"
  by (simp add: eval_group_def foldl_eval_equation_state)

lemma foldl_eval_group_state:
  "map state_fields (foldl (\<lambda>s g. eval_group ph g s) ps gs s) = map state_fields (ps s)"
  by (induction gs arbitrary: ps) (simp_all add: eval_group_state)

lemma zero_accumulators_state: "state_fields (zero_accumulators a) = state_fields a"
  by (simp add: zero_accumulators_def state_fields_def)

lemma eval_pipeline_state:
  "map state_fields (eval_pipeline ph gs ps s) = map state_fields (ps s)"
  by (simp add: eval_pipeline_def foldl_eval_group_state zero_accumulators_state)

lemma eval_pipeline_length: "length (eval_pipeline ph gs ps s) = length (ps s)"
  using arg_cong [OF eval_pipeline_state, of length ph gs ps s] by simp

text \<open>A species that is the destination of no momentum equation and of no XSPH correction
  keeps its acceleration and position rate at zero through a pipeline evaluation.\<close>

lemma apply_equation_at_rest:
  assumes "cls e \<noteq> MomentumEquation" and "cls e \<noteq> XSPHCorrection" and "at_rest a"
  shows "at_rest (apply_equation ph ps e a)"
  using assms by (simp add: apply_equation_def at_rest_def split: eq_class.splits)

lemma eval_equation_at_rest:
  assumes "\<not> writes_velocity_rate s e" and "\<not> writes_position_rate s e"
    and "list_all at_rest (ps s)"
  shows "list_all at_rest (eval_equation ph e ps s)"
proof (cases "dest e = s")
  case True
  with assms(1,2) have "cls e \<noteq> MomentumEquation" "cls e \<noteq> XSPHCorrection"
    by (simp_all add: writes_velocity_rate_def writes_position_rate_def)
  with assms(3) True show ?thesis
    by (auto simp: eval_equation_def list_all_iff apply_equation_at_rest)
next
  case False
  with assms(3) show ?thesis by (simp add: eval_equation_def)
qed

lemma foldl_eval_equation_at_rest:
  assumes "list_all (\<lambda>e. \<not> writes_velocity_rate s e \<and> \<not> writes_position_rate s e) es"
    and "list_all at_rest (ps s)"
  shows "list_all at_rest (foldl (\<lambda>s e. eval_equation ph e s) ps es s)"
  using assms by (induction es arbitrary: ps) (simp_all add: eval_equation_at_rest)

lemma foldl_eval_group_at_rest:
  assumes "list_all (\<lambda>g. list_all (\<lambda>e. \<not> writes_velocity_rate s e \<and> \<not> writes_position_rate s e)
             (equations g)) gs"
    and "list_all at_rest (ps s)"
  shows "list_all at_rest (foldl (\<lambda>s g. eval_group ph g s) ps gs s)"
  using assms
  by (induction gs arbitrary: ps) (simp_all add: eval_group_def foldl_eval_equation_at_rest)

lemma eval_pipeline_at_rest:
  assumes "list_all (\<lambda>g. list_all (\<lambda>e. \<not> writes_velocity_rate s e \<and> \<not> writes_position_rate s e)
             (equations g)) gs"
  shows "list_all at_rest (eval_pipeline ph gs ps s)"
  unfolding eval_pipeline_def
  by (rule foldl_eval_group_at_rest [OF assms])
     (simp add: list_all_iff at_rest_def zero_accumulators_def)

lemma boundary_not_accelerated:
  "list_all (\<lambda>g. list_all (\<lambda>e. \<not> writes_velocity_rate ''boundary'' e
       \<and> \<not> writes_position_rate ''boundary'' e) (equations g)) (create_equations k)"
  by (simp add: create_equations_def writes_velocity_rate_def writes_position_rate_def)

text \<open>The fluid, by contrast, is accelerated: in the example its acceleration after a
  pipeline evaluation is the body force and two pair terms.\<close>

lemma fluid_is_accelerated:
  "map d_velocity
     (eval_pipeline example_physics (create_equations example_constants) example_particles
        ''fluid'') = [(2, 2, - 781 / 100)]"
  by (simp add: eval_pipeline_def create_equations_def eval_group_def eval_equation_def
      apply_equation_def zero_accumulators_def example_particles_def example_fluid_def
      example_boundary_def example_physics_def momentum_rate_def source_list_def vsum_def
      vzero_def)

section \<open>The boundary in a pipeline evaluation\<close>

text \<open>
  C10. No equation of the pipeline writes an acceleration or a position rate for the species
  boundary: the equations with destination boundary are the equation of state with the HG
  correction and a continuity equation, and neither a MomentumEquation nor an XSPHCorrection
  has that destination. So after every pipeline evaluation the acceleration and the position
  rate of every boundary particle are at their zeroed values, and the position, velocity,
  density, mass and smoothing length of the boundary particles are those before the
  evaluation: only the pressure and the density rate, which drives the density, are written.
\<close>

theorem boundary_rates_stay_zero:
  "map cls (filter (\<lambda>e. dest e = ''boundary'') (all_equations (create_equations k))) =
     [TaitEOSHGCorrection, ContinuityEquation]
   \<and> filter (writes_velocity_rate ''boundary'') (all_equations (create_equations k)) = []
   \<and> filter (writes_position_rate ''boundary'') (all_equations (create_equations k)) = []
   \<and> list_all (\<lambda>a. d_velocity a = vzero \<and> d_position a = vzero)
       (eval_pipeline ph (create_equations k) ps ''boundary'')
   \<and> map state_fields (eval_pipeline ph (create_equations k) ps ''boundary'') =
       map state_fields (ps ''boundary'')"
proof -
  have "list_all at_rest (eval_pipeline ph (create_equations k) ps ''boundary'')"
    by (rule eval_pipeline_at_rest [OF boundary_not_accelerated])
  then have "list_all (\<lambda>a. d_velocity a = vzero \<and> d_position a = vzero)
       (eval_pipeline ph (create_equations k) ps ''boundary'')"
    by (simp add: at_rest_def [abs_def])
  moreover have "map cls (filter (\<lambda>e. dest e = ''boundary'') (all_equations (create_equations k))) =
     [TaitEOSHGCorrection, ContinuityEquation]"
    by (simp add: all_equations_def create_equations_def)
  moreover have "filter (writes_velocity_rate ''boundary'') (all_equations (create_equations k)) = []"
    by (simp add: all_equations_def create_equations_def writes_velocity_rate_def)
  moreover have "filter (writes_position_rate ''boundary'') (all_equations (create_equations k)) = []"
    by (simp add: all_equations_def create_equations_def writes_position_rate_def)
  ultimately show ?thesis by (simp add: eval_pipeline_state)
qed

theorem boundary_rates_stay_zero_witness:
  "map (\<lambda>a. (d_velocity a, d_position a, position a, velocity a))
     (eval_pipeline example_physics (create_equations example_constants) example_particles
        ''boundary'') = [((0, 0, 0), (0, 0, 0), (1, 0, 0), (0, 0, 0))]"
  using boundary_rates_stay_zero [of example_constants example_physics example_particles]
  by (simp add: eval_pipeline_def create_equations_def eval_group_def eval_equation_def
      apply_equation_def zero_accumulators_def example_particles_def example_fluid_def
      example_boundary_def example_physics_def continuity_rate_def source_list_def vzero_def)

section \<open>The steppers of the two species\<close>

text \<open>The source gives the species boundary and the species fluid the same stepper. Whatever
  fields a stepper steps, the two species are therefore stepped in the same fields: the
  boundary stepper cannot step the density only while the fluid stepper steps position,
  velocity and density.\<close>

lemma same_stepper_for_both:
  "stepper_of (s_integrator (create_solver opts)) ''boundary'' =
   stepper_of (s_integrator (create_solver opts)) ''fluid''"
  by (simp add: create_solver_def stepper_of_def)

lemma no_density_only_stepper:
  "\<not> (map_option f (stepper_of (s_integrator (create_solver opts)) ''boundary'') = Some {Density}
      \<and> map_option f (stepper_of (s_integrator (create_solver opts)) ''fluid'') =
          Some {Position, Velocity, Density})"
  by (auto simp: same_stepper_for_both)

text \<open>The stepper itself moves a particle whose rates are not zero.\<close>

lemma stepper_moves_particle_with_rates:
  "position (correct WCSPHStep 1 example_boundary example_boundary) = (5, 5, 6)
   \<and> velocity (correct WCSPHStep 1 example_boundary example_boundary) = (1, 2, 3)"
  by (simp add: example_boundary_def)

text \<open>A stepper writes position, velocity and density, and nothing else.\<close>

lemma stepper_keeps_other_fields:
  "pressure (predict st d a0 a) = pressure a \<and> mass (predict st d a0 a) = mass a
   \<and> smoothing_length (predict st d a0 a) = smoothing_length a
   \<and> d_density (predict st d a0 a) = d_density a
   \<and> d_velocity (predict st d a0 a) = d_velocity a
   \<and> d_position (predict st d a0 a) = d_position a
   \<and> pressure (correct st d a0 a) = pressure a \<and> mass (correct st d a0 a) = mass a
   \<and> smoothing_length (correct st d a0 a) = smoothing_length a
   \<and> d_density (correct st d a0 a) = d_density a
   \<and> d_velocity (correct st d a0 a) = d_velocity a
   \<and> d_position (correct st d a0 a) = d_position a"
  by (cases st) simp

lemma vadd_vscale_vzero [simp]: "vadd v (vscale c vzero) = v"
  by (cases v) (simp add: vzero_def)

lemma correct_at_rest:
  assumes "at_rest a"
  shows "position (correct st d a0 a) = position a0"
    and "velocity (correct st d a0 a) = velocity a0"
  using assms by (cases st; simp add: at_rest_def)+

lemma map2_correct_at_rest:
  assumes "list_all at_rest xs" and "length xs = length xs0"
  shows "map position (map2 (correct st d) xs0 xs) = map position xs0"
    and "map velocity (map2 (correct st d) xs0 xs) = map velocity xs0"
  using assms
  by (induction xs0 xs rule: list_induct2') (simp_all add: correct_at_rest)

lemma stage_length:
  "length (ps s) = length (ps0 s) \<Longrightarrow> length (stage f sts d ps0 ps s) = length (ps0 s)"
  by (simp add: stage_def split: option.splits)

lemma integrate_boundary_fixed:
  assumes "stepper_of I ''boundary'' = Some st"
  shows "map position (integrate I (eval_pipeline ph (create_equations k)) d ps ''boundary'') =
           map position (ps ''boundary'')"
    and "map velocity (integrate I (eval_pipeline ph (create_equations k)) d ps ''boundary'') =
           map velocity (ps ''boundary'')"
proof -
  let ?ev = "eval_pipeline ph (create_equations k)"
  have rest: "list_all at_rest (?ev q ''boundary'')" for q
    by (rule eval_pipeline_at_rest [OF boundary_not_accelerated])
  have len1: "length (stage predict (steppers I) d ps q ''boundary'') = length (ps ''boundary'')"
    if "length (q ''boundary'') = length (ps ''boundary'')" for q
    using that by (simp add: stage_length)
  have fixed: "map position (stage correct (steppers I) d ps (?ev q) ''boundary'') =
                 map position (ps ''boundary'')
             \<and> map velocity (stage correct (steppers I) d ps (?ev q) ''boundary'') =
                 map velocity (ps ''boundary'')"
    if "length (q ''boundary'') = length (ps ''boundary'')" for q
  proof -
    have l: "length (?ev q ''boundary'') = length (ps ''boundary'')"
      using that by (simp add: eval_pipeline_length)
    have s: "stage correct (steppers I) d ps (?ev q) ''boundary'' =
               map2 (correct st d) (ps ''boundary'') (?ev q ''boundary'')"
      using assms by (simp add: stage_def stepper_of_def)
    show ?thesis
      unfolding s by (intro conjI map2_correct_at_rest [OF rest l])
  qed
  have unfold: "integrate I ?ev d ps =
      stage correct (steppers I) d ps
        (?ev (stage predict (steppers I) d ps (if is_PEC I then ps else ?ev ps)))"
    by (cases I) simp_all
  let ?q = "stage predict (steppers I) d ps (if is_PEC I then ps else ?ev ps)"
  have len2: "length (?q ''boundary'') = length (ps ''boundary'')"
    by (rule len1) (simp add: eval_pipeline_length)
  show "map position (integrate I ?ev d ps ''boundary'') = map position (ps ''boundary'')"
    unfolding unfold using fixed [of ?q, OF len2] by blast
  show "map velocity (integrate I ?ev d ps ''boundary'') = map velocity (ps ''boundary'')"
    unfolding unfold using fixed [of ?q, OF len2] by blast
qed

text \<open>
  C7, as stated: for every integrator variant, the stepper of the species boundary steps the
  density only, while the stepper of the species fluid steps position, velocity and density.
  This fails: with the test option (and without it) both species have the stepper WCSPHStep,
  which steps all three fields.
\<close>

theorem boundary_stepper_density_only_counterexample:
  "\<not> (map_option stepped_fields
         (stepper_of (s_integrator (create_solver \<lparr>test = True\<rparr>)) ''boundary'') = Some {Density}
      \<and> map_option stepped_fields
         (stepper_of (s_integrator (create_solver \<lparr>test = True\<rparr>)) ''fluid'') =
           Some {Position, Velocity, Density})"
  by (simp add: create_solver_def stepper_of_def)

text \<open>
  C7, amended: for every integrator variant \<^verbatim>\<open>create_solver\<close> constructs (PEC and EPEC),
  the stepper of the species boundary is the same WCSPHStep as the stepper of the species
  fluid, which steps position, velocity and density. The position and the velocity of every
  boundary particle are all the same unchanged across a step of the integrator over the
  pipeline of \<^verbatim>\<open>create_equations\<close>, since that pipeline leaves the acceleration and the
  position rate of the boundary at zero.
\<close>

theorem boundary_held_fixed_by_zero_rates:
  "stepper_of (s_integrator (create_solver opts)) ''boundary'' = Some WCSPHStep
   \<and> stepper_of (s_integrator (create_solver opts)) ''fluid'' = Some WCSPHStep
   \<and> stepped_fields WCSPHStep = {Position, Velocity, Density}
   \<and> map position (integrate (s_integrator (create_solver opts))
                      (eval_pipeline ph (create_equations k)) d ps ''boundary'') =
       map position (ps ''boundary'')
   \<and> map velocity (integrate (s_integrator (create_solver opts))
                      (eval_pipeline ph (create_equations k)) d ps ''boundary'') =
       map velocity (ps ''boundary'')"
proof -
  have st: "stepper_of (s_integrator (create_solver opts)) ''boundary'' = Some WCSPHStep"
    by (simp add: create_solver_def stepper_of_def)
  have "stepper_of (s_integrator (create_solver opts)) ''fluid'' = Some WCSPHStep"
    by (simp add: create_solver_def stepper_of_def)
  with st integrate_boundary_fixed [OF st] show ?thesis by simp
qed

theorem boundary_held_fixed_by_zero_rates_witness:
  "map position
     (integrate (s_integrator (create_solver \<lparr>test = True\<rparr>))
        (eval_pipeline example_physics (create_equations example_constants)) 1
        example_particles ''boundary'') = [(1, 0, 0)]
   \<and> map velocity
     (integrate (s_integrator (create_solver \<lparr>test = True\<rparr>))
        (eval_pipeline example_physics (create_equations example_constants)) 1
        example_particles ''boundary'') = [(0, 0, 0)]
   \<and> map position
     (integrate (s_integrator (create_solver \<lparr>test = False\<rparr>))
        (eval_pipeline example_physics (create_equations example_constants)) 1
        example_particles ''boundary'') = [(1, 0, 0)]
   \<and> map velocity
     (integrate (s_integrator (create_solver \<lparr>test = False\<rparr>))
        (eval_pipeline example_physics (create_equations example_constants)) 1
        example_particles ''boundary'') = [(0, 0, 0)]"
  using boundary_held_fixed_by_zero_rates [of "\<lparr>test = True\<rparr>" example_physics
      example_constants 1 example_particles]
    boundary_held_fixed_by_zero_rates [of "\<lparr>test = False\<rparr>" example_physics
      example_constants 1 example_particles]
  by (simp add: example_particles_def example_boundary_def)

text \<open>In the example, one production step changes the density and the pressure of the boundary
  particle, and moves the fluid particle.\<close>

lemma boundary_density_is_stepped:
  "map (\<lambda>a. (density a, pressure a, d_density a))
     (integrate (s_integrator (create_solver \<lparr>test = False\<rparr>))
        (eval_pipeline example_physics (create_equations example_constants)) 1
        example_particles ''boundary'') = [(999, - 1 / 2, - 1)]"
  by (simp add: create_solver_def stage_def eval_pipeline_def create_equations_def
      eval_group_def eval_equation_def apply_equation_def zero_accumulators_def
      example_particles_def example_fluid_def example_boundary_def example_physics_def
      continuity_rate_def continuity_term_def momentum_rate_def xsph_rate_def source_list_def
      vsum_def vzero_def)

lemma fluid_is_moved:
  "map (\<lambda>a. (position a, velocity a, density a))
     (integrate (s_integrator (create_solver \<lparr>test = False\<rparr>))
        (eval_pipeline example_physics (create_equations example_constants)) 1
        example_particles ''fluid'') = [((2, 1, - 781 / 200), (3, 2, - 781 / 100), 998)]"
  by (simp add: create_solver_def stage_def eval_pipeline_def create_equations_def
      eval_group_def eval_equation_def apply_equation_def zero_accumulators_def
      example_particles_def example_fluid_def example_boundary_def example_physics_def
      continuity_rate_def continuity_term_def momentum_rate_def xsph_rate_def source_list_def
      vsum_def vzero_def)

section \<open>The timestep of a test run\<close>

lemma solver_step_fixed:
  assumes "\<not> s_adaptive_timestep cfg" and "s_n_damp cfg = 0"
  shows "solver_step cfg cfl damp advance s =
     \<lparr>time = time s + timestep s, timestep = timestep s, step_count = Suc (step_count s),
      particles = advance (timestep s) (particles s)\<rparr>"
  using assms by (simp add: solver_step_def next_dt_def damped_def Let_def)

lemma solve_nonempty: "solve n cfg cfl damp advance s \<noteq> []"
  by (cases n) simp_all

lemma solve_fixed_nth:
  assumes "\<not> s_adaptive_timestep cfg" and "s_n_damp cfg = 0"
    and "i < length (solve n cfg cfl damp advance s)"
  shows "timestep (solve n cfg cfl damp advance s ! i) = timestep s
       \<and> time (solve n cfg cfl damp advance s ! i) = time s + real i * timestep s"
  using assms(3)
proof (induction n arbitrary: s i)
  case 0
  then show ?case by simp
next
  case (Suc n)
  show ?case
  proof (cases "s_tf cfg \<le> time s")
    case True
    with Suc.prems show ?thesis by simp
  next
    case False
    show ?thesis
    proof (cases i)
      case 0
      with False show ?thesis by simp
    next
      case (Suc j)
      let ?s' = "solver_step cfg cfl damp advance s"
      from Suc False Suc.prems have "j < length (solve n cfg cfl damp advance ?s')" by simp
      from Suc.IH [OF this] Suc False show ?thesis
        by (simp add: solver_step_fixed [OF assms(1,2)] algebra_simps)
    qed
  qed
qed

lemma solve_fixed_all:
  assumes "\<not> s_adaptive_timestep cfg" and "s_n_damp cfg = 0"
  shows "list_all (\<lambda>q. timestep q = timestep s) (solve n cfg cfl damp advance s)"
  using solve_fixed_nth [OF assms] by (auto simp: list_all_length)

lemma solve_fixed_independent:
  assumes "\<not> s_adaptive_timestep cfg" and "s_n_damp cfg = 0"
  shows "solve n cfg cfl damp advance s = solve n cfg cfl' damp' advance s"
proof (induction n arbitrary: s)
  case 0
  show ?case by simp
next
  case (Suc n)
  show ?case
    by (simp add: solver_step_fixed [OF assms] Suc.IH)
qed

lemma solve_fixed_terminates:
  assumes "\<not> s_adaptive_timestep cfg" and "s_n_damp cfg = 0"
    and "s_tf cfg \<le> time s + real n * timestep s"
  shows "terminated cfg (last (solve n cfg cfl damp advance s))"
  using assms(3)
proof (induction n arbitrary: s)
  case 0
  then show ?case by (simp add: terminated_def)
next
  case (Suc n)
  show ?case
  proof (cases "s_tf cfg \<le> time s")
    case True
    then show ?thesis by (simp add: terminated_def)
  next
    case False
    let ?s' = "solver_step cfg cfl damp advance s"
    from Suc.prems have "s_tf cfg \<le> time ?s' + real n * timestep ?s'"
      by (simp add: solver_step_fixed [OF assms(1,2)] algebra_simps)
    from Suc.IH [OF this] False show ?thesis
      by (simp add: solve_nonempty)
  qed
qed

text \<open>
  C8. With the test option the solver is configured with adaptive timestepping disabled and
  zero damping steps, and without it with adaptive timestepping enabled and zero damping
  steps as well. So in a test run every step uses the fixed timestep 1e-5: every state of the
  run has this timestep and the state after i steps is at time i times 1e-5. The run is
  reproducible: the sequence of states is a function of the configuration, the integrator
  step and the initial particles alone, and does not depend on the timestep formula or on
  the damping. The run ends: after 200000 steps the termination time 2.0 is reached.
\<close>

theorem test_run_fixed_timestep:
  assumes "test opts"
  shows "\<not> s_adaptive_timestep (create_solver opts) \<and> s_n_damp (create_solver opts) = 0
     \<and> s_dt (create_solver opts) = 1 / 100000
     \<and> s_adaptive_timestep (create_solver (opts\<lparr>test := False\<rparr>))
     \<and> s_n_damp (create_solver (opts\<lparr>test := False\<rparr>)) = 0
     \<and> list_all (\<lambda>q. timestep q = 1 / 100000)
         (solve n (create_solver opts) cfl damp advance (initial_state (create_solver opts) ps))
     \<and> (\<forall>i < length (solve n (create_solver opts) cfl damp advance
                        (initial_state (create_solver opts) ps)).
           time (solve n (create_solver opts) cfl damp advance
                   (initial_state (create_solver opts) ps) ! i) = real i / 100000)
     \<and> solve n (create_solver opts) cfl damp advance (initial_state (create_solver opts) ps) =
         solve n (create_solver opts) cfl' damp' advance (initial_state (create_solver opts) ps)
     \<and> terminated (create_solver opts)
         (last (solve 200000 (create_solver opts) cfl damp advance
                  (initial_state (create_solver opts) ps)))"
proof -
  let ?cfg = "create_solver opts"
  let ?s0 = "initial_state ?cfg ps"
  have na: "\<not> s_adaptive_timestep ?cfg" and nd: "s_n_damp ?cfg = 0"
    and d: "s_dt ?cfg = 1 / 100000" and t: "s_tf ?cfg = 2"
    using assms by (simp_all add: create_solver_def dt_def tf_def)
  have s0: "timestep ?s0 = 1 / 100000" "time ?s0 = 0"
    by (simp_all add: initial_state_def d)
  have prod: "s_adaptive_timestep (create_solver (opts\<lparr>test := False\<rparr>))
     \<and> s_n_damp (create_solver (opts\<lparr>test := False\<rparr>)) = 0"
    by (simp add: create_solver_def)
  have all: "list_all (\<lambda>q. timestep q = 1 / 100000) (solve n ?cfg cfl damp advance ?s0)"
    using solve_fixed_all [OF na nd, of ?s0 n cfl damp advance] by (simp add: s0)
  have times: "\<forall>i < length (solve n ?cfg cfl damp advance ?s0).
      time (solve n ?cfg cfl damp advance ?s0 ! i) = real i / 100000"
    using solve_fixed_nth [OF na nd, of _ n cfl damp advance ?s0] by (simp add: s0)
  have indep: "solve n ?cfg cfl damp advance ?s0 = solve n ?cfg cfl' damp' advance ?s0"
    by (rule solve_fixed_independent [OF na nd])
  have "s_tf ?cfg \<le> time ?s0 + real 200000 * timestep ?s0"
    by (simp add: s0 t)
  then have fin: "terminated ?cfg (last (solve 200000 ?cfg cfl damp advance ?s0))"
    by (rule solve_fixed_terminates [OF na nd])
  from na nd d prod all times indep fin show ?thesis by blast
qed

theorem test_run_fixed_timestep_witness:
  "test \<lparr>test = True\<rparr>
   \<and> map (\<lambda>q. (time q, timestep q))
       (solve (Suc (Suc 0)) (create_solver \<lparr>test = True\<rparr>) (\<lambda>ps. 1) (\<lambda>n d. d / 2)
          (\<lambda>d ps. ps) (initial_state (create_solver \<lparr>test = True\<rparr>) example_particles)) =
       [(0, 1 / 100000), (1 / 100000, 1 / 100000), (2 / 100000, 1 / 100000)]"
proof -
  have t: "test \<lparr>test = True\<rparr>" by simp
  show ?thesis
    using t test_run_fixed_timestep [OF t, of "Suc (Suc 0)" "\<lambda>ps. 1" "\<lambda>n d. d / 2"
        "\<lambda>d ps. ps" example_particles]
    by (simp add: create_solver_def initial_state_def solver_step_def next_dt_def damped_def
        dt_def tf_def Let_def)
qed

text \<open>Without the test option the timestep is recomputed at every step, so the run does
  depend on the formula: with a formula that always yields 1, the first step of the
  production configuration already leaves the configured timestep.\<close>

lemma production_run_adapts:
  "map timestep
     (solve (Suc 0) (create_solver \<lparr>test = False\<rparr>) (\<lambda>ps. 1) (\<lambda>n d. d) (\<lambda>d ps. ps)
        (initial_state (create_solver \<lparr>test = False\<rparr>) example_particles)) = [1 / 100000, 1]"
  by (simp add: create_solver_def initial_state_def solver_step_def next_dt_def damped_def
      dt_def tf_def Let_def)

end
